theory Spec2Isabelle
  imports Complex_Main "HOL-Library.Sublist"
begin

section \<open>Banyan GIS v1.3: the document/view state of the main window\<close>

text \<open>
  The program is \<^verbatim>\<open>BanyanGIS_v1.3.py\<close>: a main window that holds at most one
  GeoDataFrame (\<^verbatim>\<open>self.gdf\<close>), a matplotlib figure with its canvas, five menu actions
  that are enabled while a file is open, and the handlers of class \<^verbatim>\<open>Operations\<close>.

  The handlers are modelled by explicit state passing over the record \<open>main_window\<close>.
  What the user answers in a dialog is an argument of the handler. The libraries the
  handlers call (geopandas, rasterio, matplotlib) are the fields of the record \<open>env\<close>;
  a call that raises returns \<open>Inl\<close> of the exception. Message boxes, dialogs, canvas
  redraws, \<^verbatim>\<open>setEnabled\<close> calls and the calls of the geodata libraries are appended,
  in program order, to the field \<open>trace\<close> of the window.

  Besides the \<^verbatim>\<open>canvas.draw()\<close> calls of the handlers, \<^verbatim>\<open>gdf.plot(ax=ax)\<close> ends with
  \<^verbatim>\<open>canvas.draw_idle()\<close>: it leaves a redraw pending, which the canvas carries out when
  the event loop next runs. That is the step \<open>idle\<close>.

  Coordinates are Python floats, modelled as \<open>real\<close>; the handlers only store and compare
  them. A Python string is a list of characters with code points below 256.
\<close>

subsection \<open>Python values\<close>

datatype exn =
    IOError string
  | ValueError string
  | AttributeError string
  | KeyError string
  | OtherError string

text \<open>\<^verbatim>\<open>str(e)\<close>, as the f-strings of the handlers format an exception; the text of a
  \<^verbatim>\<open>KeyError\<close> is the \<^verbatim>\<open>repr\<close> of the key.\<close>

definition quoted :: "string \<Rightarrow> string" where
  "quoted s = [CHR 0x27] @ s @ [CHR 0x27]"

fun exn_str :: "exn \<Rightarrow> string" where
  "exn_str (IOError m) = m"
| "exn_str (ValueError m) = m"
| "exn_str (AttributeError m) = m"
| "exn_str (KeyError k) = quoted k"
| "exn_str (OtherError m) = m"

text \<open>The \<^verbatim>\<open>AttributeError\<close> of reading attribute \<open>a\<close> of a value of type \<open>t\<close>.\<close>

definition no_attribute :: "string \<Rightarrow> string \<Rightarrow> exn" where
  "no_attribute t a = AttributeError (quoted t @ '' object has no attribute '' @ quoted a)"

text \<open>\<^verbatim>\<open>str.isdigit\<close>: the string is not empty and every character is a digit. Below
  code point 256 the digits are \<^verbatim>\<open>0\<close> to \<^verbatim>\<open>9\<close> and the superscripts U+00B2, U+00B3 and
  U+00B9; \<^verbatim>\<open>int\<close> accepts only the former.\<close>

definition is_decimal :: "char \<Rightarrow> bool" where
  "is_decimal c = (48 \<le> (of_char c :: nat) \<and> (of_char c :: nat) \<le> 57)"

definition is_digit :: "char \<Rightarrow> bool" where
  "is_digit c = (is_decimal c \<or> (of_char c :: nat) \<in> {178, 179, 185})"

definition isdigit :: "string \<Rightarrow> bool" where
  "isdigit s = (s \<noteq> [] \<and> list_all is_digit s)"

definition decimal_value :: "string \<Rightarrow> nat" where
  "decimal_value s = foldl (\<lambda>n c. 10 * n + (of_char c - 48)) 0 s"

text \<open>\<^verbatim>\<open>int(s)\<close> for a string without sign, blanks or underscores (which is what passes
  \<^verbatim>\<open>isdigit\<close>). The bound that recent interpreters put on the number of digits is not
  modelled; beyond it \<^verbatim>\<open>int\<close> raises \<^verbatim>\<open>ValueError\<close> as it does here for a character
  that is not decimal.\<close>

definition py_int :: "string \<Rightarrow> exn + nat" where
  "py_int s =
     (if s \<noteq> [] \<and> list_all is_decimal s then Inr (decimal_value s)
      else Inl (ValueError (''invalid literal for int() with base 10: '' @ quoted s)))"

fun str_nat :: "nat \<Rightarrow> string" where
  "str_nat n =
     (if n < 10 then [char_of (48 + n)]
      else str_nat (n div 10) @ [char_of (48 + n mod 10)])"

declare str_nat.simps [simp del]

definition str_int :: "int \<Rightarrow> string" where
  "str_int i = (if i < 0 then ''-'' @ str_nat (nat (- i)) else str_nat (nat i))"

text \<open>\<^verbatim>\<open>s.endswith(suffixes)\<close> with a tuple of suffixes.\<close>

definition endswith1 :: "string \<Rightarrow> string \<Rightarrow> bool" where
  "endswith1 s suf = (length suf \<le> length s \<and> drop (length s - length suf) s = suf)"

definition endswith :: "string \<Rightarrow> string list \<Rightarrow> bool" where
  "endswith s sufs = list_ex (endswith1 s) sufs"

subsection \<open>The GeoDataFrame\<close>

type_synonym point = "real \<times> real"

text \<open>A geometry is known by its text (\<^verbatim>\<open>str\<close> gives the WKT) and by the coordinates of
  its centroid; reading \<^verbatim>\<open>centroid.x\<close> of a geometry that has none raises.\<close>

record geom =
  wkt :: string
  centroid_xy :: "exn + point"

text \<open>A cell of the frame. \<open>ObjV t s\<close> is a value of any other type, named \<open>t\<close>, whose
  \<^verbatim>\<open>str\<close> is \<open>s\<close> (a float, a date).\<close>

datatype cell =
    NoneV
  | IntV int
  | StrV string
  | ObjV string string
  | GeomV geom

fun py_str :: "cell \<Rightarrow> string" where
  "py_str NoneV = ''None''"
| "py_str (IntV i) = str_int i"
| "py_str (StrV s) = s"
| "py_str (ObjV t s) = s"
| "py_str (GeomV g) = wkt g"

fun type_name :: "cell \<Rightarrow> string" where
  "type_name NoneV = ''NoneType''"
| "type_name (IntV i) = ''int''"
| "type_name (StrV s) = ''str''"
| "type_name (ObjV t s) = t"
| "type_name (GeomV g) = ''BaseGeometry''"

text \<open>\<open>columns\<close> is \<^verbatim>\<open>gdf.columns\<close>, the geometry column among them; \<open>rows\<close> are the
  features, \<^verbatim>\<open>gdf.iloc[i, j]\<close> being cell \<open>j\<close> of row \<open>i\<close>; \<open>crs\<close> is \<^verbatim>\<open>gdf.crs\<close>,
  given by its \<^verbatim>\<open>to_string()\<close>; \<open>total_bounds\<close> is (minx, miny, maxx, maxy).\<close>

record dataset =
  columns :: "string list"
  rows :: "cell list list"
  crs :: "string option"
  total_bounds :: "real \<times> real \<times> real \<times> real"

definition iloc :: "dataset \<Rightarrow> nat \<Rightarrow> nat \<Rightarrow> cell" where
  "iloc d i j = rows d ! i ! j"

fun index_of :: "string \<Rightarrow> string list \<Rightarrow> nat option" where
  "index_of k [] = None"
| "index_of k (c # cs) =
     (if c = k then Some 0 else map_option Suc (index_of k cs))"

text \<open>\<^verbatim>\<open>row[name]\<close> for a row of \<^verbatim>\<open>gdf.iterrows()\<close>; column names are taken to be
  distinct.\<close>

definition row_get :: "dataset \<Rightarrow> cell list \<Rightarrow> string \<Rightarrow> exn + cell" where
  "row_get d row name =
     (case index_of name (columns d) of
        None \<Rightarrow> Inl (KeyError name)
      | Some j \<Rightarrow> if j < length row then Inr (row ! j) else Inl (KeyError name))"

text \<open>\<^verbatim>\<open>g.centroid\<close> followed by \<^verbatim>\<open>centroid.x\<close>, \<^verbatim>\<open>centroid.y\<close>.\<close>

fun cell_centroid :: "cell \<Rightarrow> exn + point" where
  "cell_centroid (GeomV g) = centroid_xy g"
| "cell_centroid v = Inl (no_attribute (type_name v) ''centroid'')"

subsection \<open>The figure\<close>

text \<open>A text label of the axes, with the centroid it was created for.\<close>

record label =
  anchor :: point
  label_text :: string
  visible :: bool

text \<open>The axes of the figure: the frame that was plotted on them, the axis limits, the
  labels, and whether \<^verbatim>\<open>update_label_visibility\<close> is connected to the limit changes.\<close>

record axes =
  shown :: "dataset option"
  xlim :: "real \<times> real"
  ylim :: "real \<times> real"
  labels :: "label list"
  culling :: bool

definition new_axes :: axes where
  "new_axes = \<lparr>shown = None, xlim = (0, 1), ylim = (0, 1), labels = [], culling = False\<rparr>"

subsection \<open>The libraries\<close>

type_synonym bbox = "real \<times> real \<times> real \<times> real"

text \<open>
  \<open>read_file\<close> is \<^verbatim>\<open>gpd.read_file\<close>; \<open>to_crs d code\<close> is \<^verbatim>\<open>d.to_crs(epsg=code)\<close>;
  \<open>clip d c\<close> is \<^verbatim>\<open>d.clip(c)\<close>; \<open>raster_bounds p\<close> imports rasterio, opens \<open>p\<close>
  and reads its bounds (left, bottom, right, top); \<open>cx d b\<close> is the slice
  \<^verbatim>\<open>d.cx[left:right, bottom:top]\<close>; \<open>plot d\<close> is \<^verbatim>\<open>d.plot(ax=ax)\<close>, which leaves
  the limits it scaled the axes to (the redraw it requests from the canvas before it
  returns is the step \<open>draw_idle\<close> of the window, taken by the handler that calls it); \<open>set_lim\<close> is \<^verbatim>\<open>ax.set_xlim\<close> and
  \<^verbatim>\<open>ax.set_ylim\<close>, which return the limits they installed.
\<close>

record env =
  read_file :: "string \<Rightarrow> exn + dataset"
  to_crs :: "dataset \<Rightarrow> string \<Rightarrow> exn + dataset"
  clip :: "dataset \<Rightarrow> dataset \<Rightarrow> exn + dataset"
  raster_bounds :: "string \<Rightarrow> exn + bbox"
  cx :: "dataset \<Rightarrow> bbox \<Rightarrow> exn + dataset"
  plot :: "dataset \<Rightarrow> exn + (real \<times> real) \<times> (real \<times> real)"
  set_lim :: "real \<Rightarrow> real \<Rightarrow> exn + real \<times> real"

subsection \<open>The main window\<close>

text \<open>The \<^verbatim>\<open>QTableWidget\<close> of the attribute table.\<close>

record table =
  column_count :: nat
  row_count :: nat
  header :: "string list"
  items :: "nat \<times> nat \<Rightarrow> string option"

definition new_table :: table where
  "new_table = \<lparr>column_count = 0, row_count = 0, header = [], items = (\<lambda>_. None)\<rparr>"

datatype action = AttrTable | Projection | SwitchProj | Clip | LabelFeatures

datatype event =
    Warning string string
  | Critical string string
  | Information string string
  | ProjectionDialog string
  | AttributeTableDialog table
  | Draw
  | SetEnabled action bool
  | ReadFile string
  | ToCrs string
  | ClipBy dataset
  | RasterOpen string
  | Cx bbox

record menus =
  attr_table_action :: bool
  projection_action :: bool
  switch_proj_action :: bool
  clip_action :: bool
  label_action :: bool

text \<open>\<open>figure\<close> is \<open>None\<close> for a cleared figure; \<open>canvas\<close> is what the canvas last
  rendered; \<open>draw_pending\<close> tells that a redraw requested by \<^verbatim>\<open>draw_idle\<close> is still to
  be carried out.\<close>

record main_window =
  gdf :: "dataset option"
  welcome_label :: string
  figure :: "axes option"
  canvas :: "axes option"
  draw_pending :: bool
  menus :: menus
  trace :: "event list"

definition emit :: "event \<Rightarrow> main_window \<Rightarrow> main_window" where
  "emit e w = w\<lparr>trace := trace w @ [e]\<rparr>"

definition draw :: "main_window \<Rightarrow> main_window" where
  "draw w = emit Draw (w\<lparr>canvas := figure w\<rparr>)"

text \<open>\<^verbatim>\<open>canvas.draw_idle()\<close> asks for a redraw; \<^verbatim>\<open>canvas.draw()\<close> does not withdraw the
  request.\<close>

definition draw_idle :: "main_window \<Rightarrow> main_window" where
  "draw_idle w = w\<lparr>draw_pending := True\<rparr>"

text \<open>The event loop carries out a pending redraw: the canvas renders the figure as it
  is then. The loop runs when a handler has returned and, before that, while a message
  box of the handler is open. In every handler the figure stays as it is from the first
  message box after a plot to the return, so both moments render the same figure, and
  \<open>idle\<close> is taken on the window the handler returns.\<close>

definition idle :: "main_window \<Rightarrow> main_window" where
  "idle w = (if draw_pending w then draw (w\<lparr>draw_pending := False\<rparr>) else w)"

definition update_operations_menu_state :: "main_window \<Rightarrow> main_window" where
  "update_operations_menu_state w =
     (let has_file_opened = (gdf w \<noteq> None) in
      w\<lparr>menus :=
          \<lparr>attr_table_action = has_file_opened,
           projection_action = has_file_opened,
           switch_proj_action = has_file_opened,
           clip_action = has_file_opened,
           label_action = has_file_opened\<rparr>,
        trace := trace w @
          [SetEnabled AttrTable has_file_opened,
           SetEnabled Projection has_file_opened,
           SetEnabled SwitchProj has_file_opened,
           SetEnabled Clip has_file_opened,
           SetEnabled LabelFeatures has_file_opened]\<rparr>)"

definition clear_canvas :: "main_window \<Rightarrow> main_window" where
  "clear_canvas w =
     update_operations_menu_state (draw (w\<lparr>gdf := None, figure := None\<rparr>))"

text \<open>\<^verbatim>\<open>MainWindow.__init__\<close>: the actions are created enabled, then the canvas is
  cleared and the menu state updated.\<close>

definition created :: main_window where
  "created =
     \<lparr>gdf = None,
      welcome_label = ''Welcome to the preview version of Banyan GIS'',
      figure = None, canvas = None, draw_pending = False,
      menus = \<lparr>attr_table_action = True, projection_action = True,
               switch_proj_action = True, clip_action = True, label_action = True\<rparr>,
      trace = []\<rparr>"

definition init :: main_window where
  "init = update_operations_menu_state (clear_canvas created)"

subsection \<open>Importing a file\<close>

text \<open>\<^verbatim>\<open>ImportFile.import_shapefile\<close>; \<open>file_path\<close> is what the file dialog returns,
  empty when it is cancelled.\<close>

definition import_shapefile ::
  "env \<Rightarrow> main_window \<Rightarrow> string \<Rightarrow> (dataset option \<times> string option) \<times> main_window" where
  "import_shapefile env w file_path =
     (if file_path \<noteq> [] then
        (case read_file env file_path of
           Inr d \<Rightarrow> ((Some d, Some file_path), emit (ReadFile file_path) w)
         | Inl (IOError m) \<Rightarrow>
             ((None, None),
              emit (Critical ''Error'' ''Error reading the file.'') (emit (ReadFile file_path) w))
         | Inl e \<Rightarrow>
             ((None, None),
              emit (Critical ''Error'' (''An unexpected error occurred: '' @ exn_str e))
                (emit (ReadFile file_path) w)))
      else ((None, None), w))"

subsection \<open>The handlers of class Operations\<close>

definition display_gis_data :: "env \<Rightarrow> main_window \<Rightarrow> main_window" where
  "display_gis_data env w =
     (case gdf w of
        None \<Rightarrow> emit (Warning ''Warning'' ''No GIS file is opened.'') w
      | Some d \<Rightarrow>
          (case plot env d of
             Inl e \<Rightarrow>
               emit (Critical ''Error'' (''Failed to display GIS data: '' @ exn_str e))
                 (w\<lparr>figure := Some new_axes\<rparr>)
           | Inr v \<Rightarrow>
               (let ax = new_axes\<lparr>shown := Some d, xlim := fst v, ylim := snd v\<rparr>;
                    w1 = draw_idle w;
                    (minx, miny, maxx, maxy) = total_bounds d
                in case set_lim env minx maxx of
                     Inl e \<Rightarrow>
                       emit (Critical ''Error'' (''Failed to display GIS data: '' @ exn_str e))
                         (w1\<lparr>figure := Some ax\<rparr>)
                   | Inr xl \<Rightarrow>
                       (case set_lim env miny maxy of
                          Inl e \<Rightarrow>
                            emit (Critical ''Error'' (''Failed to display GIS data: '' @ exn_str e))
                              (w1\<lparr>figure := Some (ax\<lparr>xlim := xl\<rparr>)\<rparr>)
                        | Inr yl \<Rightarrow> draw (w1\<lparr>figure := Some (ax\<lparr>xlim := xl, ylim := yl\<rparr>)\<rparr>)))))"

definition open_file :: "env \<Rightarrow> main_window \<Rightarrow> string \<Rightarrow> main_window" where
  "open_file env w file_path =
     (case import_shapefile env w file_path of
        ((Some d, p), w1) \<Rightarrow>
          update_operations_menu_state
            (display_gis_data env
               (w1\<lparr>gdf := Some d,
                   welcome_label := ''Opened file: '' @ (case p of Some s \<Rightarrow> s | None \<Rightarrow> ''None'')\<rparr>))
      | ((None, p), w1) \<Rightarrow> update_operations_menu_state (clear_canvas w1))"

definition show_projection_info :: "main_window \<Rightarrow> main_window" where
  "show_projection_info w =
     (case gdf w of
        None \<Rightarrow>
          emit (Critical ''Error''
                 (''Failed to get projection info: '' @ exn_str (no_attribute ''NoneType'' ''crs''))) w
      | Some d \<Rightarrow>
          (let projection_info =
                 (case crs d of Some s \<Rightarrow> s | None \<Rightarrow> ''Undefined projection'')
           in emit (ProjectionDialog projection_info) w))"

text \<open>\<open>(epsg_code, ok)\<close> is what \<^verbatim>\<open>QInputDialog.getText\<close> returns.\<close>

definition switch_projection :: "env \<Rightarrow> main_window \<Rightarrow> string \<times> bool \<Rightarrow> main_window" where
  "switch_projection env w answer =
     (let (epsg_code, ok) = answer in
      if \<not> ok \<or> \<not> isdigit epsg_code then
        emit (Warning ''Warning'' ''Invalid EPSG code entered.'') w
      else
        (case py_int epsg_code of
           Inl e \<Rightarrow> emit (Warning ''Error'' (''Failed to switch projection: '' @ exn_str e)) w
         | Inr n \<Rightarrow>
             (case gdf w of
                None \<Rightarrow>
                  emit (Warning ''Error''
                         (''Failed to switch projection: '' @
                          exn_str (no_attribute ''NoneType'' ''to_crs''))) w
              | Some d \<Rightarrow>
                  (case to_crs env d (str_nat n) of
                     Inl e \<Rightarrow>
                       emit (Warning ''Error'' (''Failed to switch projection: '' @ exn_str e))
                         (emit (ToCrs (str_nat n)) w)
                   | Inr d' \<Rightarrow>
                       display_gis_data env
                         ((emit (ToCrs (str_nat n)) w)
                            \<lparr>gdf := Some d',
                             welcome_label := ''Projection switched to EPSG:'' @ str_nat n\<rparr>)))))"

text \<open>The body of the \<^verbatim>\<open>try\<close> of \<^verbatim>\<open>clip_data\<close> up to the call of
  \<^verbatim>\<open>display_gis_data\<close>: the window it leaves and the exception, if one was raised.\<close>

definition clip_dispatch ::
  "env \<Rightarrow> dataset \<Rightarrow> main_window \<Rightarrow> string \<Rightarrow> main_window \<times> exn option" where
  "clip_dispatch env d w clip_path =
     (if endswith clip_path [''.shp'', ''.geojson''] then
        (case read_file env clip_path of
           Inl e \<Rightarrow> (emit (ReadFile clip_path) w, Some e)
         | Inr clip_gdf \<Rightarrow>
             (case clip env d clip_gdf of
                Inl e \<Rightarrow> (emit (ClipBy clip_gdf) (emit (ReadFile clip_path) w), Some e)
              | Inr d' \<Rightarrow>
                  ((emit (ClipBy clip_gdf) (emit (ReadFile clip_path) w))\<lparr>gdf := Some d'\<rparr>, None)))
      else if endswith clip_path [''.tif'', ''.tiff''] then
        (case raster_bounds env clip_path of
           Inl e \<Rightarrow> (emit (RasterOpen clip_path) w, Some e)
         | Inr bbox \<Rightarrow>
             (case cx env d bbox of
                Inl e \<Rightarrow> (emit (Cx bbox) (emit (RasterOpen clip_path) w), Some e)
              | Inr d' \<Rightarrow>
                  ((emit (Cx bbox) (emit (RasterOpen clip_path) w))\<lparr>gdf := Some d'\<rparr>, None)))
      else (w, None))"

text \<open>\<open>clip_path\<close> is what the file dialog returns, empty when it is cancelled.\<close>

definition clip_data :: "env \<Rightarrow> main_window \<Rightarrow> string \<Rightarrow> main_window" where
  "clip_data env w clip_path =
     (case gdf w of
        None \<Rightarrow> emit (Warning ''Warning'' ''No GIS file is opened.'') w
      | Some d \<Rightarrow>
          if clip_path = [] then w
          else
            (case clip_dispatch env d w clip_path of
               (w1, Some e) \<Rightarrow>
                 emit (Critical ''Error'' (''Failed to clip data: '' @ exn_str e)) w1
             | (w1, None) \<Rightarrow>
                 emit (Information ''Clip Data'' ''Data clipped successfully.'')
                   (display_gis_data env w1)))"

text \<open>An item set outside the table's dimensions is dropped.\<close>

definition set_item :: "nat \<Rightarrow> nat \<Rightarrow> string \<Rightarrow> table \<Rightarrow> table" where
  "set_item i j s t =
     (if i < row_count t \<and> j < column_count t then t\<lparr>items := (items t)((i, j) \<mapsto> s)\<rparr>
      else t)"

definition fill_row :: "dataset \<Rightarrow> nat \<Rightarrow> table \<Rightarrow> table" where
  "fill_row d i t =
     fold (\<lambda>j. set_item i j (py_str (iloc d i j))) [0..<length (columns d)] t"

definition attribute_table :: "dataset \<Rightarrow> table" where
  "attribute_table d =
     fold (fill_row d) [0..<length (rows d)]
       (new_table\<lparr>column_count := length (columns d),
                  row_count := length (rows d),
                  header := columns d\<rparr>)"

definition show_attribute_table :: "main_window \<Rightarrow> main_window" where
  "show_attribute_table w =
     (case gdf w of
        None \<Rightarrow> emit (Warning ''Warning'' ''No GIS file is opened.'') w
      | Some d \<Rightarrow>
          emit (AttributeTableDialog (attribute_table d)) w)"

text \<open>\<^verbatim>\<open>update_label_visibility\<close>, the closure of \<^verbatim>\<open>label_features\<close> over the axes and
  their labels.\<close>

definition update_label_visibility :: "axes \<Rightarrow> axes" where
  "update_label_visibility ax =
     (let (x_min, x_max) = xlim ax;
          (y_min, y_max) = ylim ax
      in ax\<lparr>labels :=
              map (\<lambda>l. l\<lparr>visible :=
                           (x_min \<le> fst (anchor l) \<and> fst (anchor l) \<le> x_max) \<and>
                           (y_min \<le> snd (anchor l) \<and> snd (anchor l) \<le> y_max)\<rparr>)
                  (labels ax)\<rparr>)"

text \<open>The body of the loop over \<^verbatim>\<open>gdf.iterrows()\<close>: the label \<^verbatim>\<open>ax.text\<close> creates
  for a row, at the centroid of its geometry, or the exception raised on the way.\<close>

definition row_label :: "dataset \<Rightarrow> string \<Rightarrow> cell list \<Rightarrow> exn + label" where
  "row_label d field row =
     (case row_get d row ''geometry'' of
        Inl e \<Rightarrow> Inl e
      | Inr g \<Rightarrow>
          (case cell_centroid g of
             Inl e \<Rightarrow> Inl e
           | Inr c \<Rightarrow>
               (case row_get d row field of
                  Inl e \<Rightarrow> Inl e
                | Inr v \<Rightarrow> Inr \<lparr>anchor = c, label_text = py_str v, visible = True\<rparr>)))"

text \<open>The loop: every \<^verbatim>\<open>ax.text\<close> adds its label to the axes at once; an exception
  leaves the loop with the axes as they are.\<close>

fun label_rows :: "dataset \<Rightarrow> string \<Rightarrow> cell list list \<Rightarrow> axes \<Rightarrow> axes \<times> exn option" where
  "label_rows d field [] ax = (ax, None)"
| "label_rows d field (row # rest) ax =
     (case row_label d field row of
        Inl e \<Rightarrow> (ax, Some e)
      | Inr l \<Rightarrow> label_rows d field rest (ax\<lparr>labels := labels ax @ [l]\<rparr>))"

text \<open>\<open>(field, ok)\<close> is what \<^verbatim>\<open>QInputDialog.getItem\<close> returns.\<close>

definition label_features :: "env \<Rightarrow> main_window \<Rightarrow> string \<times> bool \<Rightarrow> main_window" where
  "label_features env w answer =
     (case gdf w of
        None \<Rightarrow> emit (Warning ''Warning'' ''No GIS file is opened.'') w
      | Some d \<Rightarrow>
          (let (field, ok) = answer in
           if ok \<and> field \<noteq> [] then
             (case plot env d of
                Inl e \<Rightarrow>
                  emit (Critical ''Error'' (''Failed to display labels: '' @ exn_str e))
                    (w\<lparr>figure := Some new_axes\<rparr>)
              | Inr v \<Rightarrow>
                  (case label_rows d field (rows d)
                          (new_axes\<lparr>shown := Some d, xlim := fst v, ylim := snd v\<rparr>) of
                     (ax, Some e) \<Rightarrow>
                       emit (Critical ''Error'' (''Failed to display labels: '' @ exn_str e))
                         ((draw_idle w)\<lparr>figure := Some ax\<rparr>)
                   | (ax, None) \<Rightarrow>
                       draw ((draw_idle w)
                               \<lparr>figure := Some (update_label_visibility (ax\<lparr>culling := True\<rparr>))\<rparr>)))
           else w))"

subsection \<open>Reading the trace\<close>

text \<open>The calls of the geodata libraries, and the \<^verbatim>\<open>setEnabled\<close> calls, among the
  events of a trace.\<close>

fun is_library_call :: "event \<Rightarrow> bool" where
  "is_library_call (ReadFile p) = True"
| "is_library_call (ToCrs c) = True"
| "is_library_call (ClipBy c) = True"
| "is_library_call (RasterOpen p) = True"
| "is_library_call (Cx b) = True"
| "is_library_call e = False"

definition library_calls :: "event list \<Rightarrow> event list" where
  "library_calls tr = filter is_library_call tr"

fun is_set_enabled :: "event \<Rightarrow> bool" where
  "is_set_enabled (SetEnabled a b) = True"
| "is_set_enabled e = False"

definition enable_calls :: "event list \<Rightarrow> event list" where
  "enable_calls tr = filter is_set_enabled tr"

text \<open>The labels the figure carries.\<close>

definition figure_labels :: "main_window \<Rightarrow> label list" where
  "figure_labels w = (case figure w of None \<Rightarrow> [] | Some ax \<Rightarrow> labels ax)"

text \<open>The labels the canvas shows.\<close>

definition canvas_labels :: "main_window \<Rightarrow> label list" where
  "canvas_labels w = (case canvas w of None \<Rightarrow> [] | Some ax \<Rightarrow> labels ax)"

text \<open>The enablement policy of the specification, and the windows whose menu agrees
  with it.\<close>

definition enabled :: "bool \<Rightarrow> menus" where
  "enabled has_dataset =
     \<lparr>attr_table_action = has_dataset, projection_action = has_dataset,
      switch_proj_action = has_dataset, clip_action = has_dataset,
      label_action = has_dataset\<rparr>"

definition menus_synced :: "main_window \<Rightarrow> bool" where
  "menus_synced w = (menus w = enabled (gdf w \<noteq> None))"

text \<open>The windows the user can reach from the window \<^verbatim>\<open>__init__\<close> creates, by the menu
  commands and the redraws of the event loop.\<close>

inductive reachable :: "env \<Rightarrow> main_window \<Rightarrow> bool" for env :: env where
  r_init: "reachable env init"
| r_open: "reachable env w \<Longrightarrow> reachable env (open_file env w file_path)"
| r_info: "reachable env w \<Longrightarrow> reachable env (show_projection_info w)"
| r_switch: "reachable env w \<Longrightarrow> reachable env (switch_projection env w answer)"
| r_clip: "reachable env w \<Longrightarrow> reachable env (clip_data env w clip_path)"
| r_table: "reachable env w \<Longrightarrow> reachable env (show_attribute_table w)"
| r_label: "reachable env w \<Longrightarrow> reachable env (label_features env w answer)"
| r_idle: "reachable env w \<Longrightarrow> reachable env (idle w)"

subsection \<open>An example session\<close>

definition pt :: "string \<Rightarrow> point \<Rightarrow> cell" where
  "pt s c = GeomV \<lparr>wkt = s, centroid_xy = Inr c\<rparr>"

text \<open>Three features; the third has no geometry.\<close>

definition cities :: dataset where
  "cities =
     \<lparr>columns = [''name'', ''pop'', ''geometry''],
      rows = [[StrV ''A'', IntV 10, pt ''POINT (0 0)'' (0, 0)],
              [StrV ''B'', IntV 25, pt ''POINT (1 2)'' (1, 2)],
              [StrV ''C'', IntV 7, NoneV]],
      crs = Some ''EPSG:4326'',
      total_bounds = (0, 0, 1, 2)\<rparr>"

definition towns :: dataset where
  "towns =
     \<lparr>columns = [''name'', ''geometry''],
      rows = [[StrV ''A'', pt ''POINT (0 0)'' (0, 0)],
              [StrV ''B'', pt ''POINT (1 2)'' (1, 2)],
              [StrV ''C'', pt ''POINT (3 1)'' (3, 1)]],
      crs = None,
      total_bounds = (0, 0, 3, 2)\<rparr>"

definition env0 :: env where
  "env0 =
     \<lparr>read_file = (\<lambda>p. if p = ''cities.shp'' then Inr cities
                         else if p = ''towns.geojson'' then Inr towns
                         else Inl (IOError ''No such file or directory'')),
      to_crs = (\<lambda>d c. if c = ''3857'' then Inr (d\<lparr>crs := Some ''EPSG:3857''\<rparr>)
                       else Inl (OtherError ''Invalid projection'')),
      clip = (\<lambda>d c. Inr (d\<lparr>rows := take 1 (rows d)\<rparr>)),
      raster_bounds = (\<lambda>p. if p = ''dem.tif'' then Inr (0, 0, 1, 1)
                             else Inl (OtherError ''No such file or directory'')),
      cx = (\<lambda>d b. Inr (d\<lparr>rows := take 2 (rows d)\<rparr>)),
      plot = (\<lambda>d. Inr ((-1, 4), (-1, 3))),
      set_lim = (\<lambda>a b. Inr (a, b))\<rparr>"

definition held :: main_window where
  "held = open_file env0 init ''cities.shp''"

definition abc :: "label list" where
  "abc = [\<lparr>anchor = (0, 0), label_text = ''A'', visible = True\<rparr>,
          \<lparr>anchor = (1, 2), label_text = ''B'', visible = True\<rparr>,
          \<lparr>anchor = (3, 1), label_text = ''C'', visible = True\<rparr>]"

definition zoomed :: axes where
  "zoomed = new_axes\<lparr>labels := abc, xlim := (1, 2), ylim := (0, 2)\<rparr>"

definition unprojected :: main_window where
  "unprojected = open_file env0 init ''towns.geojson''"

section \<open>Properties\<close>

subsection \<open>What the primitive steps change\<close>

lemma emit_fields [simp]:
  "gdf (emit e w) = gdf w"
  "welcome_label (emit e w) = welcome_label w"
  "figure (emit e w) = figure w"
  "canvas (emit e w) = canvas w"
  "draw_pending (emit e w) = draw_pending w"
  "menus (emit e w) = menus w"
  "trace (emit e w) = trace w @ [e]"
  by (simp_all add: emit_def)

lemma draw_fields [simp]:
  "gdf (draw w) = gdf w"
  "welcome_label (draw w) = welcome_label w"
  "figure (draw w) = figure w"
  "canvas (draw w) = figure w"
  "draw_pending (draw w) = draw_pending w"
  "menus (draw w) = menus w"
  "trace (draw w) = trace w @ [Draw]"
  by (simp_all add: draw_def)

lemma draw_idle_fields [simp]:
  "gdf (draw_idle w) = gdf w"
  "welcome_label (draw_idle w) = welcome_label w"
  "figure (draw_idle w) = figure w"
  "canvas (draw_idle w) = canvas w"
  "draw_pending (draw_idle w) = True"
  "menus (draw_idle w) = menus w"
  "trace (draw_idle w) = trace w"
  by (simp_all add: draw_idle_def)

lemma idle_fields [simp]:
  "gdf (idle w) = gdf w"
  "welcome_label (idle w) = welcome_label w"
  "figure (idle w) = figure w"
  "draw_pending (idle w) = False"
  "menus (idle w) = menus w"
  by (simp_all add: idle_def)

lemma update_menu_fields [simp]:
  "gdf (update_operations_menu_state w) = gdf w"
  "welcome_label (update_operations_menu_state w) = welcome_label w"
  "figure (update_operations_menu_state w) = figure w"
  "canvas (update_operations_menu_state w) = canvas w"
  "menus (update_operations_menu_state w) = enabled (gdf w \<noteq> None)"
  by (simp_all add: update_operations_menu_state_def enabled_def Let_def)

lemma clear_canvas_fields [simp]:
  "gdf (clear_canvas w) = None"
  "welcome_label (clear_canvas w) = welcome_label w"
  "figure (clear_canvas w) = None"
  "canvas (clear_canvas w) = None"
  "menus (clear_canvas w) = enabled False"
  by (simp_all add: clear_canvas_def)

lemma import_shapefile_fields [simp]:
  "gdf (snd (import_shapefile env w p)) = gdf w"
  "welcome_label (snd (import_shapefile env w p)) = welcome_label w"
  "figure (snd (import_shapefile env w p)) = figure w"
  "canvas (snd (import_shapefile env w p)) = canvas w"
  "menus (snd (import_shapefile env w p)) = menus w"
  by (simp_all add: import_shapefile_def split: sum.splits exn.splits)

lemma display_gis_data_keeps [simp]:
  "gdf (display_gis_data env w) = gdf w"
  "welcome_label (display_gis_data env w) = welcome_label w"
  "menus (display_gis_data env w) = menus w"
  by (simp_all add: display_gis_data_def Let_def split: option.splits sum.splits prod.splits)

lemma init_fields [simp]:
  "gdf init = None" "figure init = None" "canvas init = None" "menus init = enabled False"
  by (simp_all add: init_def)

lemma held_gdf: "gdf held = Some cities"
  by (simp add: held_def open_file_def import_shapefile_def env0_def)

lemma endswith1_suffix: "endswith1 s suf \<longleftrightarrow> suffix suf s"
proof
  assume "endswith1 s suf"
  then have "s = take (length s - length suf) s @ suf"
    by (metis append_take_drop_id endswith1_def)
  then show "suffix suf s" by (rule suffixI)
next
  assume "suffix suf s"
  then obtain zs where "s = zs @ suf" by (auto simp: suffix_def)
  then show "endswith1 s suf" by (simp add: endswith1_def)
qed

lemma endswith_suffix: "endswith s sufs \<longleftrightarrow> (\<exists>suf \<in> set sufs. suffix suf s)"
  by (simp add: endswith_def list_ex_iff endswith1_suffix)

lemma library_calls_append [simp]:
  "library_calls (xs @ ys) = library_calls xs @ library_calls ys"
  by (simp add: library_calls_def)

lemma library_calls_list [simp]:
  "library_calls [] = []"
  "library_calls (e # es) = (if is_library_call e then e # library_calls es else library_calls es)"
  by (simp_all add: library_calls_def)

lemma enable_calls_append [simp]:
  "enable_calls (xs @ ys) = enable_calls xs @ enable_calls ys"
  by (simp add: enable_calls_def)

lemma enable_calls_list [simp]:
  "enable_calls [] = []"
  "enable_calls (e # es) = (if is_set_enabled e then e # enable_calls es else enable_calls es)"
  by (simp_all add: enable_calls_def)

lemma display_gis_data_calls [simp]:
  "library_calls (trace (display_gis_data env w)) = library_calls (trace w)"
  "enable_calls (trace (display_gis_data env w)) = enable_calls (trace w)"
  by (simp_all add: display_gis_data_def Let_def split: option.splits sum.splits prod.splits)

subsection \<open>Open\<close>

text \<open>
  C1 (as stated): if Open does not produce a dataset, because the reader fails or the
  file dialog is cancelled, the held dataset is left unchanged. \<^verbatim>\<open>open_file\<close> calls
  \<^verbatim>\<open>clear_canvas\<close> in that branch, which resets \<^verbatim>\<open>self.gdf\<close> to \<^verbatim>\<open>None\<close>: with
  \<open>cities\<close> held, opening a file that cannot be read, or cancelling the dialog, leaves
  no dataset.
\<close>

theorem open_file_failed_counterexample:
  "read_file env0 ''missing.shp'' = Inl (IOError ''No such file or directory'') \<and>
   gdf held = Some cities \<and>
   gdf (open_file env0 held ''missing.shp'') \<noteq> gdf held \<and>
   gdf (open_file env0 held []) \<noteq> gdf held"
  by (simp add: held_gdf open_file_def import_shapefile_def env0_def)

text \<open>
  C1 (amended): if Open does not produce a dataset, because the file dialog is cancelled
  or the reader raises, the handler clears the window: no dataset is held afterwards,
  whatever was held before, the figure and the canvas are empty and the five gated
  commands are disabled.
\<close>

theorem open_file_failed_clears:
  assumes "file_path = [] \<or> (\<exists>e. read_file env file_path = Inl e)"
  shows "gdf (open_file env w file_path) = None \<and>
         figure (open_file env w file_path) = None \<and>
         canvas (open_file env w file_path) = None \<and>
         menus (open_file env w file_path) = enabled False \<and>
         welcome_label (open_file env w file_path) = welcome_label w"
proof -
  from assms have "fst (fst (import_shapefile env w file_path)) = None"
    by (auto simp: import_shapefile_def split: sum.splits exn.splits)
  then obtain p w1 where i: "import_shapefile env w file_path = ((None, p), w1)"
    by (cases "import_shapefile env w file_path") auto
  have "welcome_label (snd (import_shapefile env w file_path)) = welcome_label w"
    by simp
  with i have "welcome_label w1 = welcome_label w" by simp
  with i show ?thesis by (simp add: open_file_def)
qed

theorem open_file_failed_clears_witness:
  "read_file env0 ''missing.shp'' = Inl (IOError ''No such file or directory'') \<and>
   gdf held = Some cities \<and>
   gdf (open_file env0 held ''missing.shp'') = None \<and>
   menus (open_file env0 held ''missing.shp'') = enabled False \<and>
   gdf (open_file env0 held []) = None"
proof -
  have r: "read_file env0 ''missing.shp'' = Inl (IOError ''No such file or directory'')"
    by (simp add: env0_def)
  then have h: "''missing.shp'' = [] \<or> (\<exists>e. read_file env0 ''missing.shp'' = Inl e)"
    by blast
  have c: "[] = [] \<or> (\<exists>e. read_file env0 [] = Inl e)"
    by simp
  from open_file_failed_clears [OF h, of held] open_file_failed_clears [OF c, of held] r
  show ?thesis by (simp add: held_gdf)
qed

subsection \<open>Label visibility\<close>

text \<open>
  C2: for every list of labels and every view rectangle (the limits of the axes),
  \<^verbatim>\<open>update_label_visibility\<close> makes a label visible if and only if the x of its centroid
  lies in the closed interval [xMin, xMax] and the y in [yMin, yMax]; it keeps the
  number of labels, their centroids and their texts. (A coordinate that is not a number
  is outside \<open>real\<close>; in Python it fails every comparison and lies in no interval.)
\<close>

theorem update_label_visibility_closed_rectangle:
  assumes "xlim ax = (xMin, xMax)" and "ylim ax = (yMin, yMax)"
  shows "length (labels (update_label_visibility ax)) = length (labels ax) \<and>
         (\<forall>i < length (labels ax).
            (visible (labels (update_label_visibility ax) ! i) \<longleftrightarrow>
               fst (anchor (labels ax ! i)) \<in> {xMin..xMax} \<and>
               snd (anchor (labels ax ! i)) \<in> {yMin..yMax}) \<and>
            anchor (labels (update_label_visibility ax) ! i) = anchor (labels ax ! i) \<and>
            label_text (labels (update_label_visibility ax) ! i) = label_text (labels ax ! i))"
  using assms by (simp add: update_label_visibility_def)

text \<open>Label B lies on the corner (xMin, yMax) of the view and is visible.\<close>

theorem update_label_visibility_closed_rectangle_witness:
  "xlim zoomed = (1, 2) \<and> ylim zoomed = (0, 2) \<and> length (labels zoomed) = 3 \<and>
   length (labels (update_label_visibility zoomed)) = 3 \<and>
   \<not> visible (labels (update_label_visibility zoomed) ! 0) \<and>
   visible (labels (update_label_visibility zoomed) ! 1) \<and>
   \<not> visible (labels (update_label_visibility zoomed) ! 2)"
proof -
  have x: "xlim zoomed = (1, 2)" and y: "ylim zoomed = (0, 2)"
    by (simp_all add: zoomed_def)
  have ls: "labels zoomed = abc"
    by (simp add: zoomed_def)
  note t = update_label_visibility_closed_rectangle [OF x y]
  from t have v: "\<forall>i<3. visible (labels (update_label_visibility zoomed) ! i) \<longleftrightarrow>
      fst (anchor (abc ! i)) \<in> {1..2} \<and> snd (anchor (abc ! i)) \<in> {0..2}"
    by (simp add: ls abc_def)
  have "\<not> visible (labels (update_label_visibility zoomed) ! 0)"
    using v by (simp add: abc_def)
  moreover have "visible (labels (update_label_visibility zoomed) ! 1)"
    using v by (simp add: abc_def)
  moreover have "\<not> visible (labels (update_label_visibility zoomed) ! 2)"
    using v by (simp add: abc_def)
  moreover have "length (labels (update_label_visibility zoomed)) = 3"
    using t by (simp add: ls abc_def)
  ultimately show ?thesis using x y by (simp add: ls abc_def)
qed

subsection \<open>Command enablement\<close>

text \<open>
  C3: \<^verbatim>\<open>update_operations_menu_state\<close> enables all five gated commands (attribute table,
  projection info, switch projection, clip, label features) exactly when a dataset is
  held, and disables all five otherwise; it does not touch the dataset.
\<close>

theorem update_operations_menu_state_all_five:
  "attr_table_action (menus (update_operations_menu_state w)) = (gdf w \<noteq> None) \<and>
   projection_action (menus (update_operations_menu_state w)) = (gdf w \<noteq> None) \<and>
   switch_proj_action (menus (update_operations_menu_state w)) = (gdf w \<noteq> None) \<and>
   clip_action (menus (update_operations_menu_state w)) = (gdf w \<noteq> None) \<and>
   label_action (menus (update_operations_menu_state w)) = (gdf w \<noteq> None) \<and>
   menus (update_operations_menu_state w) = enabled (gdf w \<noteq> None) \<and>
   gdf (update_operations_menu_state w) = gdf w"
  by (simp add: update_operations_menu_state_def enabled_def Let_def)

subsection \<open>Attribute table\<close>

lemma set_item_counts [simp]:
  "row_count (set_item i j s t) = row_count t"
  "column_count (set_item i j s t) = column_count t"
  "header (set_item i j s t) = header t"
  by (simp_all add: set_item_def)

lemma fold_set_item_counts [simp]:
  "row_count (fold (\<lambda>j. set_item i j (f j)) js t) = row_count t"
  "column_count (fold (\<lambda>j. set_item i j (f j)) js t) = column_count t"
  "header (fold (\<lambda>j. set_item i j (f j)) js t) = header t"
  by (induction js arbitrary: t) simp_all

lemma fold_set_item_items:
  "distinct js \<Longrightarrow> items (fold (\<lambda>j. set_item i j (f j)) js t) (a, b) =
     (if a = i \<and> b \<in> set js \<and> i < row_count t \<and> b < column_count t then Some (f b)
      else items t (a, b))"
proof (induction js arbitrary: t)
  case Nil
  then show ?case by simp
next
  case (Cons j js)
  then show ?case by (auto simp: set_item_def)
qed

lemma fill_row_counts [simp]:
  "row_count (fill_row d i t) = row_count t"
  "column_count (fill_row d i t) = column_count t"
  "header (fill_row d i t) = header t"
  by (simp_all add: fill_row_def)

lemma fill_row_items:
  "items (fill_row d i t) (a, b) =
     (if a = i \<and> b < length (columns d) \<and> i < row_count t \<and> b < column_count t
      then Some (py_str (iloc d i b)) else items t (a, b))"
  by (simp add: fill_row_def fold_set_item_items)

lemma fold_fill_row_counts [simp]:
  "row_count (fold (fill_row d) is t) = row_count t"
  "column_count (fold (fill_row d) is t) = column_count t"
  "header (fold (fill_row d) is t) = header t"
  by (induction "is" arbitrary: t) simp_all

lemma fold_fill_row_items:
  "distinct is \<Longrightarrow> items (fold (fill_row d) is t) (a, b) =
     (if a \<in> set is \<and> b < length (columns d) \<and> a < row_count t \<and> b < column_count t
      then Some (py_str (iloc d a b)) else items t (a, b))"
proof (induction "is" arbitrary: t)
  case Nil
  then show ?case by simp
next
  case (Cons i "is")
  then show ?case by (auto simp: fill_row_items)
qed

text \<open>
  C10: for a held dataset, the table of Show-Attribute-Table has one row per feature and
  one column per column of \<^verbatim>\<open>gdf.columns\<close> (the geometry column is one of them), the
  column names as header, and in every cell the \<^verbatim>\<open>str\<close> of the value at that row and
  column; no item lies outside these rows and columns.
\<close>

theorem show_attribute_table_cells:
  assumes "gdf w = Some d"
  shows "show_attribute_table w = emit (AttributeTableDialog (attribute_table d)) w \<and>
         row_count (attribute_table d) = length (rows d) \<and>
         column_count (attribute_table d) = length (columns d) \<and>
         header (attribute_table d) = columns d \<and>
         (\<forall>i j. items (attribute_table d) (i, j) =
            (if i < length (rows d) \<and> j < length (columns d)
             then Some (py_str (rows d ! i ! j)) else None))"
  using assms
  by (simp add: show_attribute_table_def attribute_table_def fold_fill_row_items
                new_table_def iloc_def)

lemma str_nat_25: "str_nat 25 = ''25''"
  by code_simp

lemma cities_fields:
  "columns cities = [''name'', ''pop'', ''geometry'']"
  "rows cities ! 0 = [StrV ''A'', IntV 10, pt ''POINT (0 0)'' (0, 0)]"
  "rows cities ! 1 = [StrV ''B'', IntV 25, pt ''POINT (1 2)'' (1, 2)]"
  "rows cities ! 2 = [StrV ''C'', IntV 7, NoneV]"
  "length (rows cities) = 3"
  "crs cities = Some ''EPSG:4326''"
  by (simp_all add: cities_def)

theorem show_attribute_table_cells_witness:
  "gdf held = Some cities \<and>
   row_count (attribute_table cities) = 3 \<and>
   column_count (attribute_table cities) = 3 \<and>
   header (attribute_table cities) = [''name'', ''pop'', ''geometry''] \<and>
   items (attribute_table cities) (1, 1) = Some ''25'' \<and>
   items (attribute_table cities) (0, 2) = Some ''POINT (0 0)'' \<and>
   items (attribute_table cities) (2, 2) = Some ''None'' \<and>
   items (attribute_table cities) (3, 0) = None"
proof -
  note t = show_attribute_table_cells [OF held_gdf]
  from t have cells: "\<And>i j. items (attribute_table cities) (i, j) =
      (if i < 3 \<and> j < 3 then Some (py_str (rows cities ! i ! j)) else None)"
    by (simp add: cities_fields)
  have "items (attribute_table cities) (1, 1) = Some ''25''"
    by (subst cells) (simp add: cities_def str_int_def str_nat_25)
  moreover have "items (attribute_table cities) (0, 2) = Some ''POINT (0 0)''"
    by (subst cells) (simp add: cities_def pt_def)
  moreover have "items (attribute_table cities) (2, 2) = Some ''None''"
    by (subst cells) (simp add: cities_def)
  moreover have "items (attribute_table cities) (3, 0) = None"
    by (simp add: cells)
  ultimately show ?thesis
    using t by (simp add: held_gdf cities_fields)
qed

subsection \<open>Projection info\<close>

text \<open>
  C7: for a held dataset, Show-Projection-Info shows a dialog with the CRS identifier
  when the dataset has one and with the text "Undefined projection" when it has none;
  nothing of the window but the trace of shown dialogs changes, so the dataset is not
  mutated.
\<close>

theorem show_projection_info_read_only:
  assumes "gdf w = Some d"
  shows "show_projection_info w =
           w\<lparr>trace := trace w @
                [ProjectionDialog (case crs d of Some s \<Rightarrow> s | None \<Rightarrow> ''Undefined projection'')]\<rparr> \<and>
         gdf (show_projection_info w) = Some d \<and>
         (crs d = None \<longrightarrow>
            trace (show_projection_info w) = trace w @ [ProjectionDialog ''Undefined projection'']) \<and>
         (\<forall>s. crs d = Some s \<longrightarrow>
            trace (show_projection_info w) = trace w @ [ProjectionDialog s])"
  using assms by (simp add: show_projection_info_def emit_def)

lemma unprojected_gdf: "gdf unprojected = Some towns"
  by (simp add: unprojected_def open_file_def import_shapefile_def env0_def)

theorem show_projection_info_read_only_witness:
  "gdf held = Some cities \<and> crs cities = Some ''EPSG:4326'' \<and>
   trace (show_projection_info held) = trace held @ [ProjectionDialog ''EPSG:4326''] \<and>
   gdf (show_projection_info held) = Some cities \<and>
   gdf unprojected = Some towns \<and> crs towns = None \<and>
   trace (show_projection_info unprojected) =
     trace unprojected @ [ProjectionDialog ''Undefined projection''] \<and>
   gdf (show_projection_info unprojected) = Some towns"
  using show_projection_info_read_only [OF held_gdf]
        show_projection_info_read_only [OF unprojected_gdf]
  by (simp add: held_gdf unprojected_gdf cities_def towns_def)

subsection \<open>Switch projection\<close>

text \<open>
  C4: when the dialog of Switch-Projection is cancelled or its text does not pass
  \<^verbatim>\<open>isdigit\<close>, the handler shows the warning "Invalid EPSG code entered.", calls no
  library (so never the reprojector) and changes nothing else in the window; when the
  reprojector \<^verbatim>\<open>to_crs\<close> fails, the failure is shown and the window, the held dataset
  with its CRS and geometry included, is otherwise unchanged. A text of digits that
  \<^verbatim>\<open>int\<close> rejects (a superscript digit) is reported likewise, without any library call.
  In general the held dataset changes only into the result of a successful reprojection.
\<close>

theorem switch_projection_failures:
  "(\<not> ok \<or> \<not> isdigit epsg_code \<longrightarrow>
      switch_projection env w (epsg_code, ok) =
        w\<lparr>trace := trace w @ [Warning ''Warning'' ''Invalid EPSG code entered.'']\<rparr> \<and>
      library_calls (trace (switch_projection env w (epsg_code, ok))) = library_calls (trace w)) \<and>
   (\<forall>d n e. ok \<and> isdigit epsg_code \<and> gdf w = Some d \<and> py_int epsg_code = Inr n \<and>
            to_crs env d (str_nat n) = Inl e \<longrightarrow>
      switch_projection env w (epsg_code, ok) =
        w\<lparr>trace := trace w @
             [ToCrs (str_nat n),
              Warning ''Error'' (''Failed to switch projection: '' @ exn_str e)]\<rparr>) \<and>
   (\<forall>e. ok \<and> isdigit epsg_code \<and> py_int epsg_code = Inl e \<longrightarrow>
      switch_projection env w (epsg_code, ok) =
        w\<lparr>trace := trace w @
             [Warning ''Error'' (''Failed to switch projection: '' @ exn_str e)]\<rparr>) \<and>
   (gdf (switch_projection env w (epsg_code, ok)) = gdf w \<or>
    (\<exists>d n d'. ok \<and> isdigit epsg_code \<and> py_int epsg_code = Inr n \<and> gdf w = Some d \<and>
        to_crs env d (str_nat n) = Inr d' \<and>
        gdf (switch_projection env w (epsg_code, ok)) = Some d'))"
  by (auto simp: switch_projection_def emit_def split: sum.splits option.splits)

lemma isdigit_4326: "isdigit ''4326''"
  by (simp add: isdigit_def is_digit_def is_decimal_def)

lemma py_int_4326: "py_int ''4326'' = Inr 4326"
  by (simp add: py_int_def is_decimal_def decimal_value_def)

lemma str_nat_4326: "str_nat 4326 = ''4326''"
  by code_simp

lemma not_isdigit_abc: "\<not> isdigit ''abc''"
  by (simp add: isdigit_def is_digit_def is_decimal_def)

lemma superscript_two:
  "isdigit [CHR 0xB2]"
  "py_int [CHR 0xB2] =
     Inl (ValueError (''invalid literal for int() with base 10: '' @ quoted [CHR 0xB2]))"
  by (simp_all add: isdigit_def is_digit_def is_decimal_def py_int_def)

lemma to_crs_4326: "to_crs env0 cities ''4326'' = Inl (OtherError ''Invalid projection'')"
  by (simp add: env0_def)

theorem switch_projection_failures_witness:
  "\<not> isdigit ''abc'' \<and>
   switch_projection env0 held (''abc'', True) =
     held\<lparr>trace := trace held @ [Warning ''Warning'' ''Invalid EPSG code entered.'']\<rparr> \<and>
   switch_projection env0 held ([], False) =
     held\<lparr>trace := trace held @ [Warning ''Warning'' ''Invalid EPSG code entered.'']\<rparr> \<and>
   isdigit ''4326'' \<and> gdf held = Some cities \<and> py_int ''4326'' = Inr 4326 \<and>
   to_crs env0 cities (str_nat 4326) = Inl (OtherError ''Invalid projection'') \<and>
   switch_projection env0 held (''4326'', True) =
     held\<lparr>trace := trace held @
          [ToCrs ''4326'', Warning ''Error'' ''Failed to switch projection: Invalid projection'']\<rparr> \<and>
   isdigit [CHR 0xB2] \<and>
   library_calls (trace (switch_projection env0 held ([CHR 0xB2], True))) =
     library_calls (trace held) \<and>
   gdf (switch_projection env0 held ([CHR 0xB2], True)) = gdf held"
proof -
  have d: "switch_projection env0 held ([CHR 0xB2], True) =
     held\<lparr>trace := trace held @
          [Warning ''Error'' (''Failed to switch projection: '' @
             exn_str (ValueError (''invalid literal for int() with base 10: '' @ quoted [CHR 0xB2])))]\<rparr>"
    using switch_projection_failures [of True "[CHR 0xB2]" env0 held] superscript_two by blast
  have d1: "library_calls (trace (switch_projection env0 held ([CHR 0xB2], True))) =
     library_calls (trace held)"
    unfolding d by simp
  have d2: "gdf (switch_projection env0 held ([CHR 0xB2], True)) = gdf held"
    unfolding d by simp
  have a: "switch_projection env0 held (''abc'', True) =
     held\<lparr>trace := trace held @ [Warning ''Warning'' ''Invalid EPSG code entered.'']\<rparr>"
    using switch_projection_failures [of True "''abc''" env0 held] not_isdigit_abc by blast
  have b: "switch_projection env0 held ([], False) =
     held\<lparr>trace := trace held @ [Warning ''Warning'' ''Invalid EPSG code entered.'']\<rparr>"
    using switch_projection_failures [of False "[]" env0 held] by blast
  have f: "to_crs env0 cities (str_nat 4326) = Inl (OtherError ''Invalid projection'')"
    by (simp add: str_nat_4326 to_crs_4326)
  have c: "switch_projection env0 held (''4326'', True) =
     held\<lparr>trace := trace held @
          [ToCrs (str_nat 4326),
           Warning ''Error'' (''Failed to switch projection: '' @ exn_str (OtherError ''Invalid projection''))]\<rparr>"
    using switch_projection_failures [of True "''4326''" env0 held]
          isdigit_4326 held_gdf py_int_4326 f by blast
  show ?thesis
    using a b c f d1 d2
    by (simp add: not_isdigit_abc isdigit_4326 held_gdf py_int_4326 str_nat_4326 superscript_two)
qed

subsection \<open>Clip\<close>

lemma suffix_last: "suffix suf s \<Longrightarrow> suf \<noteq> [] \<Longrightarrow> last s = last suf"
  by (auto simp: suffix_def)

lemma vector_not_raster:
  "suffix ''.tif'' p \<or> suffix ''.tiff'' p \<Longrightarrow> \<not> suffix ''.shp'' p \<and> \<not> suffix ''.geojson'' p"
  by (auto dest!: suffix_last)

lemma clip_dispatch_vector:
  assumes "suffix ''.shp'' p \<or> suffix ''.geojson'' p"
  shows "clip_dispatch env d w p =
     (case read_file env p of
        Inl e \<Rightarrow> (emit (ReadFile p) w, Some e)
      | Inr c \<Rightarrow>
          (case clip env d c of
             Inl e \<Rightarrow> (emit (ClipBy c) (emit (ReadFile p) w), Some e)
           | Inr d' \<Rightarrow> ((emit (ClipBy c) (emit (ReadFile p) w))\<lparr>gdf := Some d'\<rparr>, None)))"
  using assms by (auto simp: clip_dispatch_def endswith_suffix)

lemma clip_dispatch_raster:
  assumes "suffix ''.tif'' p \<or> suffix ''.tiff'' p"
  shows "clip_dispatch env d w p =
     (case raster_bounds env p of
        Inl e \<Rightarrow> (emit (RasterOpen p) w, Some e)
      | Inr b \<Rightarrow>
          (case cx env d b of
             Inl e \<Rightarrow> (emit (Cx b) (emit (RasterOpen p) w), Some e)
           | Inr d' \<Rightarrow> ((emit (Cx b) (emit (RasterOpen p) w))\<lparr>gdf := Some d'\<rparr>, None)))"
  using assms vector_not_raster [OF assms] by (auto simp: clip_dispatch_def endswith_suffix)

lemma clip_dispatch_other:
  assumes "\<not> suffix ''.shp'' p" "\<not> suffix ''.geojson'' p" "\<not> suffix ''.tif'' p" "\<not> suffix ''.tiff'' p"
  shows "clip_dispatch env d w p = (w, None)"
  using assms by (simp add: clip_dispatch_def endswith_suffix)

text \<open>
  C5: with a dataset held and a clip file chosen, a path ending in \<^verbatim>\<open>.shp\<close> or
  \<^verbatim>\<open>.geojson\<close> takes the vector route (the file is read and the dataset clipped by it,
  no raster call), a path ending in \<^verbatim>\<open>.tif\<close> or \<^verbatim>\<open>.tiff\<close> takes the raster route
  (the raster's bounds are read and the dataset sliced by them, no vector call), and any
  other path calls no library and leaves the held dataset unchanged. On either route the
  held dataset becomes the result of the clip when every call succeeds and stays as it
  is otherwise.
\<close>

theorem clip_data_dispatch:
  assumes "gdf w = Some d" and "clip_path \<noteq> []"
  shows
   "(suffix ''.shp'' clip_path \<or> suffix ''.geojson'' clip_path \<longrightarrow>
       library_calls (trace (clip_data env w clip_path)) =
         library_calls (trace w) @
           (case read_file env clip_path of
              Inl e \<Rightarrow> [ReadFile clip_path]
            | Inr c \<Rightarrow> [ReadFile clip_path, ClipBy c]) \<and>
       gdf (clip_data env w clip_path) =
         (case read_file env clip_path of
            Inl e \<Rightarrow> Some d
          | Inr c \<Rightarrow> (case clip env d c of Inl e \<Rightarrow> Some d | Inr d' \<Rightarrow> Some d'))) \<and>
    (suffix ''.tif'' clip_path \<or> suffix ''.tiff'' clip_path \<longrightarrow>
       library_calls (trace (clip_data env w clip_path)) =
         library_calls (trace w) @
           (case raster_bounds env clip_path of
              Inl e \<Rightarrow> [RasterOpen clip_path]
            | Inr b \<Rightarrow> [RasterOpen clip_path, Cx b]) \<and>
       gdf (clip_data env w clip_path) =
         (case raster_bounds env clip_path of
            Inl e \<Rightarrow> Some d
          | Inr b \<Rightarrow> (case cx env d b of Inl e \<Rightarrow> Some d | Inr d' \<Rightarrow> Some d'))) \<and>
    (\<not> suffix ''.shp'' clip_path \<and> \<not> suffix ''.geojson'' clip_path \<and>
     \<not> suffix ''.tif'' clip_path \<and> \<not> suffix ''.tiff'' clip_path \<longrightarrow>
       library_calls (trace (clip_data env w clip_path)) = library_calls (trace w) \<and>
       gdf (clip_data env w clip_path) = Some d)"
proof (intro conjI impI)
  assume v: "suffix ''.shp'' clip_path \<or> suffix ''.geojson'' clip_path"
  show "library_calls (trace (clip_data env w clip_path)) =
         library_calls (trace w) @
           (case read_file env clip_path of
              Inl e \<Rightarrow> [ReadFile clip_path]
            | Inr c \<Rightarrow> [ReadFile clip_path, ClipBy c])"
    using assms by (simp add: clip_data_def clip_dispatch_vector [OF v] split: sum.splits)
  show "gdf (clip_data env w clip_path) =
         (case read_file env clip_path of
            Inl e \<Rightarrow> Some d
          | Inr c \<Rightarrow> (case clip env d c of Inl e \<Rightarrow> Some d | Inr d' \<Rightarrow> Some d'))"
    using assms by (simp add: clip_data_def clip_dispatch_vector [OF v] split: sum.splits)
next
  assume r: "suffix ''.tif'' clip_path \<or> suffix ''.tiff'' clip_path"
  show "library_calls (trace (clip_data env w clip_path)) =
         library_calls (trace w) @
           (case raster_bounds env clip_path of
              Inl e \<Rightarrow> [RasterOpen clip_path]
            | Inr b \<Rightarrow> [RasterOpen clip_path, Cx b])"
    using assms by (simp add: clip_data_def clip_dispatch_raster [OF r] split: sum.splits)
  show "gdf (clip_data env w clip_path) =
         (case raster_bounds env clip_path of
            Inl e \<Rightarrow> Some d
          | Inr b \<Rightarrow> (case cx env d b of Inl e \<Rightarrow> Some d | Inr d' \<Rightarrow> Some d'))"
    using assms by (simp add: clip_data_def clip_dispatch_raster [OF r] split: sum.splits)
next
  assume o: "\<not> suffix ''.shp'' clip_path \<and> \<not> suffix ''.geojson'' clip_path \<and>
     \<not> suffix ''.tif'' clip_path \<and> \<not> suffix ''.tiff'' clip_path"
  then have "clip_dispatch env d w clip_path = (w, None)"
    by (simp add: clip_dispatch_other)
  then show "library_calls (trace (clip_data env w clip_path)) = library_calls (trace w)"
    and "gdf (clip_data env w clip_path) = Some d"
    using assms by (simp_all add: clip_data_def)
qed

text \<open>
  C9: with a dataset held and a chosen path that ends in none of \<^verbatim>\<open>.shp\<close>,
  \<^verbatim>\<open>.geojson\<close>, \<^verbatim>\<open>.tif\<close>, \<^verbatim>\<open>.tiff\<close>, the Clip handler still runs
  \<^verbatim>\<open>display_gis_data\<close> and then reports "Data clipped successfully.", although no clip
  was performed and the dataset is unchanged; when the plotting calls do not raise, the
  canvas is redrawn with the unchanged dataset.
\<close>

theorem clip_data_other_extension:
  assumes "gdf w = Some d" and "clip_path \<noteq> []"
    and "\<not> suffix ''.shp'' clip_path" and "\<not> suffix ''.geojson'' clip_path"
    and "\<not> suffix ''.tif'' clip_path" and "\<not> suffix ''.tiff'' clip_path"
  shows "clip_data env w clip_path =
           emit (Information ''Clip Data'' ''Data clipped successfully.'')
             (display_gis_data env w) \<and>
         last (trace (clip_data env w clip_path)) =
           Information ''Clip Data'' ''Data clipped successfully.'' \<and>
         gdf (clip_data env w clip_path) = Some d \<and>
         library_calls (trace (clip_data env w clip_path)) = library_calls (trace w) \<and>
         (\<forall>v xl yl. plot env d = Inr v \<and>
             set_lim env (fst (total_bounds d)) (fst (snd (snd (total_bounds d)))) = Inr xl \<and>
             set_lim env (fst (snd (total_bounds d))) (snd (snd (snd (total_bounds d)))) = Inr yl \<longrightarrow>
             trace (clip_data env w clip_path) =
               trace w @ [Draw, Information ''Clip Data'' ''Data clipped successfully.''] \<and>
             canvas (clip_data env w clip_path) =
               Some (new_axes\<lparr>shown := Some d, xlim := xl, ylim := yl\<rparr>))"
proof -
  have "clip_dispatch env d w clip_path = (w, None)"
    using assms by (simp add: clip_dispatch_other)
  then have eq: "clip_data env w clip_path =
           emit (Information ''Clip Data'' ''Data clipped successfully.'')
             (display_gis_data env w)"
    using assms by (simp add: clip_data_def)
  have g: "gdf (clip_data env w clip_path) = Some d"
    by (simp add: eq assms(1))
  have l: "library_calls (trace (clip_data env w clip_path)) = library_calls (trace w)"
    by (simp add: eq)
  have m: "last (trace (clip_data env w clip_path)) =
           Information ''Clip Data'' ''Data clipped successfully.''"
    by (simp add: eq)
  have r: "\<forall>v xl yl. plot env d = Inr v \<and>
             set_lim env (fst (total_bounds d)) (fst (snd (snd (total_bounds d)))) = Inr xl \<and>
             set_lim env (fst (snd (total_bounds d))) (snd (snd (snd (total_bounds d)))) = Inr yl \<longrightarrow>
             trace (clip_data env w clip_path) =
               trace w @ [Draw, Information ''Clip Data'' ''Data clipped successfully.''] \<and>
             canvas (clip_data env w clip_path) =
               Some (new_axes\<lparr>shown := Some d, xlim := xl, ylim := yl\<rparr>)"
    by (auto simp: eq display_gis_data_def assms(1) Let_def split: prod.splits)
  from eq g l m r show ?thesis by blast
qed

lemma other_extension: 
  "\<not> suffix ''.shp'' ''notes.txt'' \<and> \<not> suffix ''.geojson'' ''notes.txt'' \<and>
   \<not> suffix ''.tif'' ''notes.txt'' \<and> \<not> suffix ''.tiff'' ''notes.txt''"
  by (auto dest!: suffix_last)

lemma upper_case_extension: 
  "\<not> suffix ''.shp'' ''A.SHP'' \<and> \<not> suffix ''.geojson'' ''A.SHP'' \<and>
   \<not> suffix ''.tif'' ''A.SHP'' \<and> \<not> suffix ''.tiff'' ''A.SHP''"
  by (auto dest!: suffix_last)

lemma suffix_examples:
  "suffix ''.geojson'' ''towns.geojson''" "suffix ''.tif'' ''dem.tif''"
  by (simp_all add: suffix_def)

theorem clip_data_other_extension_witness:
  "gdf held = Some cities \<and>
   \<not> suffix ''.shp'' ''notes.txt'' \<and> \<not> suffix ''.geojson'' ''notes.txt'' \<and>
   \<not> suffix ''.tif'' ''notes.txt'' \<and> \<not> suffix ''.tiff'' ''notes.txt'' \<and>
   trace (clip_data env0 held ''notes.txt'') =
     trace held @ [Draw, Information ''Clip Data'' ''Data clipped successfully.''] \<and>
   gdf (clip_data env0 held ''notes.txt'') = Some cities"
proof -
  have ne: "''notes.txt'' \<noteq> []" by simp
  note o = other_extension
  note t = clip_data_other_extension [OF held_gdf ne o [THEN conjunct1]
      o [THEN conjunct2, THEN conjunct1] o [THEN conjunct2, THEN conjunct2, THEN conjunct1]
      o [THEN conjunct2, THEN conjunct2, THEN conjunct2], of env0]
  have p: "plot env0 cities = Inr ((-1, 4), (-1, 3))" by (simp add: env0_def)
  have x: "set_lim env0 (fst (total_bounds cities)) (fst (snd (snd (total_bounds cities)))) = Inr (0, 1)"
    by (simp add: env0_def cities_def)
  have y: "set_lim env0 (fst (snd (total_bounds cities))) (snd (snd (snd (total_bounds cities)))) = Inr (0, 2)"
    by (simp add: env0_def cities_def)
  from t p x y have "trace (clip_data env0 held ''notes.txt'') =
     trace held @ [Draw, Information ''Clip Data'' ''Data clipped successfully.'']"
    by blast
  with t o show ?thesis by (simp add: held_gdf)
qed

theorem clip_data_dispatch_witness:
  "gdf held = Some cities \<and>
   suffix ''.geojson'' ''towns.geojson'' \<and>
   library_calls (trace (clip_data env0 held ''towns.geojson'')) =
     library_calls (trace held) @ [ReadFile ''towns.geojson'', ClipBy towns] \<and>
   gdf (clip_data env0 held ''towns.geojson'') = Some (cities\<lparr>rows := take 1 (rows cities)\<rparr>) \<and>
   suffix ''.tif'' ''dem.tif'' \<and>
   library_calls (trace (clip_data env0 held ''dem.tif'')) =
     library_calls (trace held) @ [RasterOpen ''dem.tif'', Cx (0, 0, 1, 1)] \<and>
   gdf (clip_data env0 held ''dem.tif'') = Some (cities\<lparr>rows := take 2 (rows cities)\<rparr>) \<and>
   \<not> suffix ''.shp'' ''A.SHP'' \<and>
   library_calls (trace (clip_data env0 held ''A.SHP'')) = library_calls (trace held) \<and>
   gdf (clip_data env0 held ''A.SHP'') = Some cities"
proof -
  have r: "read_file env0 ''towns.geojson'' = Inr towns" by (simp add: env0_def)
  have c: "clip env0 cities towns = Inr (cities\<lparr>rows := take 1 (rows cities)\<rparr>)"
    by (simp add: env0_def)
  have b: "raster_bounds env0 ''dem.tif'' = Inr (0, 0, 1, 1)" by (simp add: env0_def)
  have x: "cx env0 cities (0, 0, 1, 1) = Inr (cities\<lparr>rows := take 2 (rows cities)\<rparr>)"
    by (simp add: env0_def)
  have "library_calls (trace (clip_data env0 held ''towns.geojson'')) =
          library_calls (trace held) @ [ReadFile ''towns.geojson'', ClipBy towns] \<and>
        gdf (clip_data env0 held ''towns.geojson'') = Some (cities\<lparr>rows := take 1 (rows cities)\<rparr>)"
    using clip_data_dispatch [OF held_gdf, of "''towns.geojson''" env0] suffix_examples(1)
    by (simp add: r c)
  moreover have "library_calls (trace (clip_data env0 held ''dem.tif'')) =
          library_calls (trace held) @ [RasterOpen ''dem.tif'', Cx (0, 0, 1, 1)] \<and>
        gdf (clip_data env0 held ''dem.tif'') = Some (cities\<lparr>rows := take 2 (rows cities)\<rparr>)"
    using clip_data_dispatch [OF held_gdf, of "''dem.tif''" env0] suffix_examples(2)
    by (simp add: b x)
  moreover have "library_calls (trace (clip_data env0 held ''A.SHP'')) = library_calls (trace held) \<and>
        gdf (clip_data env0 held ''A.SHP'') = Some cities"
    using clip_data_dispatch [OF held_gdf, of "''A.SHP''" env0] upper_case_extension
    by simp
  ultimately show ?thesis
    using suffix_examples upper_case_extension by (simp add: held_gdf)
qed

subsection \<open>Label features\<close>

lemma label_rows_stops:
  "k < length rs \<Longrightarrow> row_label d f (rs ! k) = Inl e \<Longrightarrow> length ls = k \<Longrightarrow>
   (\<forall>i<k. row_label d f (rs ! i) = Inr (ls ! i)) \<Longrightarrow>
   label_rows d f rs ax = (ax\<lparr>labels := labels ax @ ls\<rparr>, Some e)"
proof (induction rs arbitrary: k ls ax)
  case Nil
  then show ?case by simp
next
  case (Cons r rs)
  show ?case
  proof (cases k)
    case 0
    with Cons.prems show ?thesis by simp
  next
    case (Suc k')
    with Cons.prems obtain l ls' where ls: "ls = l # ls'"
      by (cases ls) auto
    from Cons.prems(4) Suc ls have r: "row_label d f r = Inr l" by auto
    have "label_rows d f rs (ax\<lparr>labels := labels ax @ [l]\<rparr>) =
            ((ax\<lparr>labels := labels ax @ [l]\<rparr>)\<lparr>labels := labels (ax\<lparr>labels := labels ax @ [l]\<rparr>) @ ls'\<rparr>, Some e)"
    proof (rule Cons.IH [of k' ls'])
      show "k' < length rs" using Cons.prems(1) Suc by simp
      show "row_label d f (rs ! k') = Inl e" using Cons.prems(2) Suc by simp
      show "length ls' = k'" using Cons.prems(3) Suc ls by simp
      show "\<forall>i<k'. row_label d f (rs ! i) = Inr (ls' ! i)"
        using Cons.prems(4) Suc ls by auto
    qed
    with r ls show ?thesis by simp
  qed
qed

lemma held_figure:
  "figure held = Some (new_axes\<lparr>shown := Some cities, xlim := (0, 1), ylim := (0, 2)\<rparr>)"
  by (simp add: held_def open_file_def import_shapefile_def env0_def display_gis_data_def
                cities_def update_operations_menu_state_def Let_def draw_def emit_def draw_idle_def)

lemma held_canvas:
  "canvas held = Some (new_axes\<lparr>shown := Some cities, xlim := (0, 1), ylim := (0, 2)\<rparr>)"
  by (simp add: held_def open_file_def import_shapefile_def env0_def display_gis_data_def
                cities_def update_operations_menu_state_def Let_def draw_def emit_def draw_idle_def)

lemma row_label_cities:
  "row_label cities ''name'' (rows cities ! 0) =
     Inr \<lparr>anchor = (0, 0), label_text = ''A'', visible = True\<rparr>"
  "row_label cities ''name'' (rows cities ! 1) =
     Inr \<lparr>anchor = (1, 2), label_text = ''B'', visible = True\<rparr>"
  "row_label cities ''name'' (rows cities ! 2) = Inl (no_attribute ''NoneType'' ''centroid'')"
  by (simp_all add: row_label_def row_get_def cities_def pt_def)

text \<open>
  C6 (as stated): if computing a feature's label fails, Label-Features reports the
  failure, leaves the labels of the figure untouched and applies no part of the
  labelling. The handler clears the figure and adds each label to the new axes as the
  loop reaches its feature, and nothing removes them when a later feature fails: with
  \<open>cities\<close> held, whose third feature has no geometry, labelling by \<open>name\<close> fails at
  the third feature and leaves the labels A and B in a figure that had none; the redraw
  that the plot requested then shows them on a canvas that showed none.
\<close>

theorem label_features_failure_counterexample:
  "row_label cities ''name'' (rows cities ! 2) = Inl (no_attribute ''NoneType'' ''centroid'') \<and>
   figure_labels held = [] \<and>
   figure_labels (label_features env0 held (''name'', True)) =
     [\<lparr>anchor = (0, 0), label_text = ''A'', visible = True\<rparr>,
      \<lparr>anchor = (1, 2), label_text = ''B'', visible = True\<rparr>] \<and>
   figure_labels (label_features env0 held (''name'', True)) \<noteq> figure_labels held \<and>
   canvas_labels held = [] \<and>
   canvas_labels (idle (label_features env0 held (''name'', True))) =
     [\<lparr>anchor = (0, 0), label_text = ''A'', visible = True\<rparr>,
      \<lparr>anchor = (1, 2), label_text = ''B'', visible = True\<rparr>]"
proof -
  have a: "figure_labels held = []"
    by (simp add: figure_labels_def held_figure new_axes_def)
  have b: "figure_labels (label_features env0 held (''name'', True)) =
     [\<lparr>anchor = (0, 0), label_text = ''A'', visible = True\<rparr>,
      \<lparr>anchor = (1, 2), label_text = ''B'', visible = True\<rparr>]"
    by (simp add: label_features_def held_gdf figure_labels_def env0_def row_label_def
          row_get_def cities_def pt_def new_axes_def no_attribute_def split: prod.splits)
  have c: "canvas_labels held = []"
    by (simp add: canvas_labels_def held_canvas new_axes_def)
  have p: "draw_pending (label_features env0 held (''name'', True))"
    by (simp add: label_features_def held_gdf env0_def row_label_def
          row_get_def cities_def pt_def new_axes_def no_attribute_def split: prod.splits)
  have d: "canvas_labels (idle (label_features env0 held (''name'', True))) =
           figure_labels (label_features env0 held (''name'', True))"
    using p by (simp add: idle_def canvas_labels_def figure_labels_def)
  show ?thesis using a b c d by (simp add: row_label_cities)
qed

text \<open>
  C6 (amended): if, with a dataset held, a field chosen and the plot drawn, computing
  the label of feature \<open>k\<close> fails and succeeds for the features before it, the failure is
  reported in an error box and the held dataset and the menu state stay as they are.
  The figure consists of new axes that carry the labels of exactly the \<open>k\<close> features
  before the failing one; the labels the figure had before are gone. The handler itself
  does not call \<^verbatim>\<open>canvas.draw()\<close>, but the redraw requested by the plot is pending, and
  when the event loop carries it out the canvas shows this partly labelled figure.
\<close>

theorem label_features_failure_partial:
  assumes "gdf w = Some d" and "ok" and "field \<noteq> []" and "plot env d = Inr v"
    and "k < length (rows d)" and "row_label d field (rows d ! k) = Inl e"
    and "length ls = k" and "\<forall>i<k. row_label d field (rows d ! i) = Inr (ls ! i)"
  shows "idle (label_features env w (field, ok)) =
           w\<lparr>figure := Some (new_axes\<lparr>shown := Some d, xlim := fst v, ylim := snd v, labels := ls\<rparr>),
             canvas := Some (new_axes\<lparr>shown := Some d, xlim := fst v, ylim := snd v, labels := ls\<rparr>),
             draw_pending := False,
             trace := trace w @
               [Critical ''Error'' (''Failed to display labels: '' @ exn_str e), Draw]\<rparr> \<and>
         draw_pending (label_features env w (field, ok)) \<and>
         trace (label_features env w (field, ok)) =
           trace w @ [Critical ''Error'' (''Failed to display labels: '' @ exn_str e)] \<and>
         figure_labels (label_features env w (field, ok)) = ls \<and>
         canvas_labels (idle (label_features env w (field, ok))) = ls \<and>
         gdf (label_features env w (field, ok)) = gdf w \<and>
         menus (label_features env w (field, ok)) = menus w"
proof -
  let ?ax = "new_axes\<lparr>shown := Some d, xlim := fst v, ylim := snd v, labels := ls\<rparr>"
  have "label_rows d field (rows d) (new_axes\<lparr>shown := Some d, xlim := fst v, ylim := snd v\<rparr>) =
          (?ax, Some e)"
    using label_rows_stops [OF assms(5) assms(6) assms(7) assms(8),
            of "new_axes\<lparr>shown := Some d, xlim := fst v, ylim := snd v\<rparr>"]
    by (simp add: new_axes_def)
  then have r: "label_features env w (field, ok) =
      emit (Critical ''Error'' (''Failed to display labels: '' @ exn_str e))
        ((draw_idle w)\<lparr>figure := Some ?ax\<rparr>)"
    using assms(1-4) by (simp add: label_features_def)
  show ?thesis
    unfolding r
    by (simp add: idle_def draw_def emit_def draw_idle_def figure_labels_def canvas_labels_def)
qed

theorem label_features_failure_partial_witness:
  "gdf held = Some cities \<and> plot env0 cities = Inr ((-1, 4), (-1, 3)) \<and>
   (2::nat) < length (rows cities) \<and>
   row_label cities ''name'' (rows cities ! 2) = Inl (no_attribute ''NoneType'' ''centroid'') \<and>
   figure_labels (label_features env0 held (''name'', True)) =
     [\<lparr>anchor = (0, 0), label_text = ''A'', visible = True\<rparr>,
      \<lparr>anchor = (1, 2), label_text = ''B'', visible = True\<rparr>] \<and>
   canvas_labels (idle (label_features env0 held (''name'', True))) =
     [\<lparr>anchor = (0, 0), label_text = ''A'', visible = True\<rparr>,
      \<lparr>anchor = (1, 2), label_text = ''B'', visible = True\<rparr>] \<and>
   draw_pending (label_features env0 held (''name'', True)) \<and>
   gdf (label_features env0 held (''name'', True)) = gdf held"
proof -
  let ?ls = "[\<lparr>anchor = (0, 0), label_text = ''A'', visible = True\<rparr>,
              \<lparr>anchor = (1, 2), label_text = ''B'', visible = True\<rparr>]"
  have p: "plot env0 cities = Inr ((-1, 4), (-1, 3))" by (simp add: env0_def)
  have k: "(2::nat) < length (rows cities)" by (simp add: cities_def)
  have f: "''name'' \<noteq> []" by simp
  have n: "length ?ls = 2" by simp
  have pre: "\<forall>i<2. row_label cities ''name'' (rows cities ! i) = Inr (?ls ! i)"
  proof (intro allI impI)
    fix i :: nat assume "i < 2"
    then have "i = 0 \<or> i = 1" by auto
    then show "row_label cities ''name'' (rows cities ! i) = Inr (?ls ! i)"
      using row_label_cities by auto
  qed
  note t = label_features_failure_partial [OF held_gdf TrueI f p k row_label_cities(3) n pre]
  note t2 = t [THEN conjunct2]
  note pend = t2 [THEN conjunct1]
  note t4 = t2 [THEN conjunct2, THEN conjunct2]
  note fl = t4 [THEN conjunct1]
  note cl = t4 [THEN conjunct2, THEN conjunct1]
  note g = t4 [THEN conjunct2, THEN conjunct2, THEN conjunct1]
  show ?thesis using fl cl pend g p k held_gdf row_label_cities(3) by (intro conjI)
qed

subsection \<open>Enablement after the handlers\<close>

lemma switch_projection_menus [simp]:
  "menus (switch_projection env w a) = menus w"
  by (cases a) (simp add: switch_projection_def split: sum.splits option.splits)

lemma switch_projection_holds [simp]:
  "(gdf (switch_projection env w a) = None) = (gdf w = None)"
  by (cases a) (simp add: switch_projection_def split: sum.splits option.splits)

lemma switch_projection_enable_calls [simp]:
  "enable_calls (trace (switch_projection env w a)) = enable_calls (trace w)"
  by (cases a) (simp add: switch_projection_def split: sum.splits option.splits)

lemma clip_dispatch_keeps:
  "clip_dispatch env d w p = (w1, r) \<Longrightarrow>
     menus w1 = menus w \<and> enable_calls (trace w1) = enable_calls (trace w) \<and>
     (gdf w \<noteq> None \<longrightarrow> gdf w1 \<noteq> None)"
  by (auto simp: clip_dispatch_def split: if_splits sum.splits)

lemma clip_data_menus [simp]:
  "menus (clip_data env w p) = menus w"
  by (auto simp: clip_data_def split: option.splits prod.splits dest: clip_dispatch_keeps)

lemma clip_data_holds [simp]:
  "(gdf (clip_data env w p) = None) = (gdf w = None)"
  by (auto simp: clip_data_def split: option.splits prod.splits dest!: clip_dispatch_keeps)

lemma clip_data_enable_calls [simp]:
  "enable_calls (trace (clip_data env w p)) = enable_calls (trace w)"
  by (auto simp: clip_data_def split: option.splits prod.splits dest: clip_dispatch_keeps)

lemma show_projection_info_keeps [simp]:
  "menus (show_projection_info w) = menus w"
  "gdf (show_projection_info w) = gdf w"
  by (simp_all add: show_projection_info_def split: option.splits)

lemma show_attribute_table_keeps [simp]:
  "menus (show_attribute_table w) = menus w"
  "gdf (show_attribute_table w) = gdf w"
  by (simp_all add: show_attribute_table_def split: option.splits)

lemma label_features_keeps [simp]:
  "menus (label_features env w a) = menus w"
  "gdf (label_features env w a) = gdf w"
  by (cases a; simp add: label_features_def split: option.splits sum.splits prod.splits)+

lemma open_file_synced: "menus_synced (open_file env w p)"
  by (simp add: open_file_def menus_synced_def split: prod.splits option.splits)

lemma reachable_synced: "reachable env w \<Longrightarrow> menus_synced w"
proof (induction rule: reachable.induct)
  case r_init
  show ?case by (simp add: menus_synced_def)
next
  case (r_open w file_path)
  show ?case by (rule open_file_synced)
next
  case (r_info w)
  then show ?case by (simp add: menus_synced_def)
next
  case (r_switch w answer)
  then show ?case by (simp add: menus_synced_def)
next
  case (r_clip w clip_path)
  then show ?case by (simp add: menus_synced_def)
next
  case (r_table w)
  then show ?case by (simp add: menus_synced_def)
next
  case (r_label w answer)
  then show ?case by (simp add: menus_synced_def)
next
  case (r_idle w)
  then show ?case by (simp add: menus_synced_def)
qed

lemma update_menu_trace:
  "trace (update_operations_menu_state w) =
     trace w @ map (\<lambda>a. SetEnabled a (gdf w \<noteq> None))
                   [AttrTable, Projection, SwitchProj, Clip, LabelFeatures]"
  by (simp add: update_operations_menu_state_def Let_def)

lemma epsg_3857:
  "isdigit ''3857''" "py_int ''3857'' = Inr 3857"
  by (simp_all add: isdigit_def is_digit_def is_decimal_def py_int_def decimal_value_def)

lemma str_nat_3857: "str_nat 3857 = ''3857''"
  by code_simp

lemma switch_3857:
  "gdf (switch_projection env0 held (''3857'', True)) = Some (cities\<lparr>crs := Some ''EPSG:3857''\<rparr>)"
  by (simp add: switch_projection_def epsg_3857 str_nat_3857 held_gdf env0_def)

lemma clip_towns:
  "gdf (clip_data env0 held ''towns.geojson'') = Some (cities\<lparr>rows := take 1 (rows cities)\<rparr>)"
  by (simp add: clip_data_def clip_dispatch_def held_gdf env0_def endswith_def endswith1_def)

text \<open>
  C8 (as stated): after every mutation of the holder by open, switch projection, clip
  or clear, the handler recomputes the enablement state before it returns. Switch
  projection and clip replace the held dataset without any \<^verbatim>\<open>setEnabled\<close> call: on the
  window holding \<open>cities\<close>, a successful reprojection to EPSG 3857 and a successful
  vector clip both change the dataset and add no \<^verbatim>\<open>setEnabled\<close> call to the trace.
\<close>

theorem enablement_recomputed_counterexample:
  "gdf (switch_projection env0 held (''3857'', True)) \<noteq> gdf held \<and>
   enable_calls (trace (switch_projection env0 held (''3857'', True))) = enable_calls (trace held) \<and>
   gdf (clip_data env0 held ''towns.geojson'') \<noteq> gdf held \<and>
   enable_calls (trace (clip_data env0 held ''towns.geojson'')) = enable_calls (trace held)"
proof -
  have "cities\<lparr>crs := Some ''EPSG:3857''\<rparr> \<noteq> cities"
    by (simp add: cities_def)
  moreover have "cities\<lparr>rows := take 1 (rows cities)\<rparr> \<noteq> cities"
    by (simp add: cities_def)
  ultimately show ?thesis
    by (simp add: switch_3857 clip_towns held_gdf)
qed

text \<open>
  C8 (amended): open and clear end with the five \<^verbatim>\<open>setEnabled\<close> calls computed from
  the holder they leave, so after them the state of the five gated commands equals
  \<open>enabled\<close> of "a dataset is held", whatever it was before. Switch projection and clip
  make no \<^verbatim>\<open>setEnabled\<close> call; they keep a held dataset held and an absent one absent,
  so they preserve that equality. Hence it holds in every window reached from the initial
  one by the menu commands.
\<close>

theorem enablement_follows_holder:
  "(\<exists>es. trace (open_file env w file_path) =
           es @ map (\<lambda>a. SetEnabled a (gdf (open_file env w file_path) \<noteq> None))
                    [AttrTable, Projection, SwitchProj, Clip, LabelFeatures]) \<and>
   (\<exists>es. trace (clear_canvas w) =
           es @ map (\<lambda>a. SetEnabled a (gdf (clear_canvas w) \<noteq> None))
                    [AttrTable, Projection, SwitchProj, Clip, LabelFeatures]) \<and>
   menus_synced (open_file env w file_path) \<and>
   menus_synced (clear_canvas w) \<and>
   enable_calls (trace (switch_projection env w answer)) = enable_calls (trace w) \<and>
   enable_calls (trace (clip_data env w clip_path)) = enable_calls (trace w) \<and>
   (menus_synced w \<longrightarrow>
      menus_synced (switch_projection env w answer) \<and> menus_synced (clip_data env w clip_path)) \<and>
   (reachable env w \<longrightarrow> menus_synced w)"
proof -
  have o: "\<exists>es. trace (open_file env w file_path) =
           es @ map (\<lambda>a. SetEnabled a (gdf (open_file env w file_path) \<noteq> None))
                    [AttrTable, Projection, SwitchProj, Clip, LabelFeatures]"
    unfolding open_file_def
    by (auto split: prod.splits option.splits simp: update_menu_trace)
  have c: "\<exists>es. trace (clear_canvas w) =
           es @ map (\<lambda>a. SetEnabled a (gdf (clear_canvas w) \<noteq> None))
                    [AttrTable, Projection, SwitchProj, Clip, LabelFeatures]"
    unfolding clear_canvas_def by (auto simp: update_menu_trace)
  have s: "menus_synced w \<longrightarrow>
      menus_synced (switch_projection env w answer) \<and> menus_synced (clip_data env w clip_path)"
    by (simp add: menus_synced_def)
  have cc: "menus_synced (clear_canvas w)"
    by (simp add: menus_synced_def)
  from o c s cc open_file_synced reachable_synced show ?thesis
    by simp
qed

theorem enablement_follows_holder_witness:
  "reachable env0 held \<and> menus_synced held \<and>
   menus held = enabled True \<and>
   menus_synced (switch_projection env0 held (''3857'', True)) \<and>
   menus_synced (clip_data env0 held ''towns.geojson'') \<and>
   menus (switch_projection env0 held (''3857'', True)) = enabled True"
proof -
  have r: "reachable env0 held"
    unfolding held_def by (rule r_open) (rule r_init)
  note t = enablement_follows_holder
    [of env0 held "''cities.shp''" "(''3857'', True)" "''towns.geojson''"]
  from t r have s: "menus_synced held" by blast
  from t s have s2: "menus_synced (switch_projection env0 held (''3857'', True))"
    and s3: "menus_synced (clip_data env0 held ''towns.geojson'')" by blast+
  from s have m: "menus held = enabled True"
    by (simp add: menus_synced_def held_gdf)
  from s2 have m2: "menus (switch_projection env0 held (''3857'', True)) = enabled True"
    by (simp add: menus_synced_def switch_3857)
  from r s m s2 s3 m2 show ?thesis by blast
qed

end
